theory Spec2Isabelle
  imports Complex_Main
begin

section \<open>Data model\<close>

text \<open>
  A data frame is a list of rows in row order. A cell that pandas holds as NaN / NaT
  (a field that \<open>to_datetime\<close> or \<open>to_numeric\<close> with \<open>errors='coerce'\<close> could not
  parse) is \<open>None\<close>. Timestamps are the int64 nanosecond values that pandas stores,
  taken as unbounded integers. Floating-point columns are modelled as exact reals:
  rounding error of float64 arithmetic is not part of the model.

  \<open>raw_row\<close> is a row of the frame that \<open>process_historical_file\<close> reads, after
  \<open>read_csv\<close>, \<open>to_datetime\<close> and \<open>to_numeric\<close>.
\<close>

record raw_row =
  Timestamp :: "int option"
  Precio :: "real option"
  Volumen :: "real option"
  Lado :: "string option"
  Bid :: "real option"
  Ask :: "real option"

text \<open>
  \<open>tick\<close> is a row of the table that \<open>process_historical_file\<close> writes
  (\<open>cols_to_keep\<close>) and \<open>load_data\<close> reads back. The fields carry the names that
  \<open>load_data\<close> gives the columns (\<open>column_mapping\<close>: Timestamp to timestamp, Precio to
  price, Volumen to volume, Lado to side, Bid to bid, Ask to ask).
\<close>

record tick =
  timestamp :: int
  price :: "real option"
  volume :: "real option"
  side :: "string option"
  bid :: "real option"
  ask :: "real option"
  window_vol :: "real option"
  tps_window :: "real option"
  factor_tps :: "real option"

section \<open>Rolling Window Feature Engine: \<open>process_historical_file\<close>\<close>

subsection \<open>Rounding\<close>

text \<open>
  \<open>Series.round(2)\<close> scales by 100, rounds to the nearest integer with ties to the
  even integer, and scales back.
\<close>

definition rint :: "real \<Rightarrow> int" where
  "rint x =
     (let f = \<lfloor>x\<rfloor>; d = x - of_int f
      in if d < 1 / 2 then f
         else if 1 / 2 < d then f + 1
         else if even f then f else f + 1)"

definition round_decimals :: "nat \<Rightarrow> real \<Rightarrow> real" where
  "round_decimals n x = of_int (rint (x * 10 ^ n)) / 10 ^ n"

subsection \<open>Time-based rolling windows\<close>

text \<open>
  \<open>rolling(window=offset, closed='right')\<close> over a monotonic increasing datetime
  index. pandas computes for every row \<open>i\<close> a slice \<open>[start i, end i)\<close> of row
  positions: \<open>start 0 = 0\<close>, \<open>end 0 = 1\<close>, and for \<open>i > 0\<close> the start pointer advances
  from \<open>start (i - 1)\<close> to the first position \<open>j < i\<close> whose index value is greater than
  \<open>index[i] - window_size\<close> (to \<open>i\<close> when there is none), while the end is \<open>i + 1\<close>
  when \<open>index[end (i - 1)] \<le> index[i]\<close> and the previous end otherwise.
\<close>

function advance_start :: "int list \<Rightarrow> int \<Rightarrow> nat \<Rightarrow> nat \<Rightarrow> nat" where
  "advance_start index start_bound j i =
     (if j < i
      then (if 0 < index ! j - start_bound then j
            else advance_start index start_bound (Suc j) i)
      else i)"
  by pat_completeness auto
termination
  by (relation "measure (\<lambda>(index, start_bound, j, i). i - j)") auto

fun window_start :: "int list \<Rightarrow> int \<Rightarrow> nat \<Rightarrow> nat" where
  "window_start index window_size 0 = 0"
| "window_start index window_size (Suc i) =
     advance_start index (index ! Suc i - window_size)
       (window_start index window_size i) (Suc i)"

fun window_end :: "int list \<Rightarrow> nat \<Rightarrow> nat" where
  "window_end index 0 = 1"
| "window_end index (Suc i) =
     (if index ! window_end index i - index ! Suc i \<le> 0 then Suc i + 1
      else window_end index i)"

definition window_values :: "'a list \<Rightarrow> nat \<Rightarrow> nat \<Rightarrow> 'a list" where
  "window_values xs s e = take (e - s) (drop s xs)"

text \<open>
  The aggregations over one window. NaN cells are skipped; the result is NaN when
  fewer than \<open>min_periods\<close> cells of the window are not NaN. A time-based window has
  \<open>min_periods = 1\<close>. \<open>count\<close> counts the cells that are not NaN.
\<close>

definition observations :: "'a option list \<Rightarrow> 'a list" where
  "observations vs = List.map_filter (\<lambda>v. v) vs"

definition roll_sum :: "nat \<Rightarrow> real option list \<Rightarrow> real option" where
  "roll_sum min_periods vs =
     (let obs = observations vs
      in if min_periods \<le> length obs then Some (sum_list obs) else None)"

definition roll_count :: "'a option list \<Rightarrow> real" where
  "roll_count vs = real (length (observations vs))"

definition roll_min :: "nat \<Rightarrow> int list \<Rightarrow> int option" where
  "roll_min min_periods vs =
     (case vs of [] \<Rightarrow> None
      | v # rest \<Rightarrow> if min_periods \<le> length vs then Some (fold min rest v) else None)"

definition rolling_time ::
  "int \<Rightarrow> int list \<Rightarrow> 'a list \<Rightarrow> ('a list \<Rightarrow> 'b) \<Rightarrow> 'b list" where
  "rolling_time window_size index col agg =
     map (\<lambda>i. agg (window_values col (window_start index window_size i) (window_end index i)))
       [0..<length index]"

subsection \<open>The per-row rate\<close>

text \<open>A comparison with NaN is false.\<close>

definition le_nan :: "real option \<Rightarrow> real \<Rightarrow> bool" where
  "le_nan a b = (case a of None \<Rightarrow> False | Some x \<Rightarrow> x \<le> b)"

definition gt_nan :: "real option \<Rightarrow> real \<Rightarrow> bool" where
  "gt_nan a b = (case a of None \<Rightarrow> False | Some x \<Rightarrow> b < x)"

definition ge_nan :: "real option \<Rightarrow> real \<Rightarrow> bool" where
  "ge_nan a b = (case a of None \<Rightarrow> False | Some x \<Rightarrow> b \<le> x)"

text \<open>
  \<open>calc_tps\<close> as written: the branch \<open>dur <= 0.001\<close> returns \<open>cnt\<close>; the
  \<open>return 0\<close> that follows it in the source is never reached. The count is never
  NaN; a NaN duration fails the comparison and makes the quotient NaN.
\<close>

definition calc_tps :: "real \<Rightarrow> real option \<Rightarrow> real option" where
  "calc_tps cnt dur =
     (if cnt \<le> 1 then Some 0
      else if le_nan dur (1 / 1000) then Some cnt
      else map_option (\<lambda>d. cnt / d) dur)"

subsection \<open>The pipeline\<close>

text \<open>
  \<open>dropna(subset=['Timestamp'])\<close> keeps the rows whose timestamp parsed; a kept row
  is paired with its timestamp, which becomes the index.
\<close>

definition dropna_Timestamp :: "raw_row list \<Rightarrow> (int \<times> raw_row) list" where
  "dropna_Timestamp df =
     concat (map (\<lambda>r. case Timestamp r of None \<Rightarrow> [] | Some t \<Rightarrow> [(t, r)]) df)"

definition rolling_window_vol :: "int \<Rightarrow> (int \<times> raw_row) list \<Rightarrow> real option list" where
  "rolling_window_vol window_ms df_indexed =
     rolling_time (window_ms * 1000000) (map fst df_indexed)
       (map (\<lambda>r. Volumen (snd r)) df_indexed) (roll_sum 1)"

definition rolling_window_count :: "int \<Rightarrow> (int \<times> raw_row) list \<Rightarrow> real list" where
  "rolling_window_count tps_window_sec df_indexed =
     rolling_time (tps_window_sec * 1000000000) (map fst df_indexed)
       (map (\<lambda>r. Volumen (snd r)) df_indexed) roll_count"

definition min_ts_in_window :: "int \<Rightarrow> (int \<times> raw_row) list \<Rightarrow> int option list" where
  "min_ts_in_window tps_window_sec df_indexed =
     rolling_time (tps_window_sec * 1000000000) (map fst df_indexed)
       (map fst df_indexed) (roll_min 1)"

definition duration_sec :: "int \<Rightarrow> (int \<times> raw_row) list \<Rightarrow> real option list" where
  "duration_sec tps_window_sec df_indexed =
     map2 (\<lambda>current_ts m. map_option (\<lambda>m. real_of_int (current_ts - m) / 1000000000) m)
       (map fst df_indexed) (min_ts_in_window tps_window_sec df_indexed)"

text \<open>\<open>calc_tps\<close> applied to every row, then rounded to 2 decimals.\<close>

definition tps_window_col :: "int \<Rightarrow> (int \<times> raw_row) list \<Rightarrow> real option list" where
  "tps_window_col tps_window_sec df_indexed =
     map2 (\<lambda>cnt dur. map_option (round_decimals 2) (calc_tps cnt dur))
       (rolling_window_count tps_window_sec df_indexed)
       (duration_sec tps_window_sec df_indexed)"

definition factor_tps_col :: "int \<Rightarrow> int \<Rightarrow> (int \<times> raw_row) list \<Rightarrow> real option list" where
  "factor_tps_col window_ms tps_window_sec df_indexed =
     map2 (\<lambda>v t. case (v, t) of
                    (Some v', Some t') \<Rightarrow> Some (round_decimals 2 (v' * t'))
                  | _ \<Rightarrow> None)
       (rolling_window_vol window_ms df_indexed)
       (tps_window_col tps_window_sec df_indexed)"

text \<open>
  The whole function. \<open>sort_values\<close> is the one step whose code is not in the
  repository: it is the parameter \<open>sort_values\<close>, applied to the rows that kept their
  timestamp. (\<open>sort_index\<close> then finds the index already monotonic and leaves the row
  order as it is.) The result is \<open>df_final\<close>, the rows written to the output file.
  The input is taken to have all six columns, and the two window lengths to be
  positive, as pandas requires of a window; the intermediate columns
  \<open>window_count\<close> and \<open>window_duration\<close> are not among the columns kept.
\<close>

definition process_historical_file ::
  "((int \<times> raw_row) list \<Rightarrow> (int \<times> raw_row) list) \<Rightarrow> int \<Rightarrow> int \<Rightarrow> raw_row list \<Rightarrow> tick list" where
  "process_historical_file sort_values window_ms tps_window_sec df =
     (let df_indexed = sort_values (dropna_Timestamp df);
          wv = rolling_window_vol window_ms df_indexed;
          tps = tps_window_col tps_window_sec df_indexed;
          ftps = factor_tps_col window_ms tps_window_sec df_indexed
      in map (\<lambda>i. \<lparr>timestamp = fst (df_indexed ! i),
                    price = Precio (snd (df_indexed ! i)),
                    volume = Volumen (snd (df_indexed ! i)),
                    side = Lado (snd (df_indexed ! i)),
                    bid = Bid (snd (df_indexed ! i)),
                    ask = Ask (snd (df_indexed ! i)),
                    window_vol = wv ! i,
                    tps_window = tps ! i,
                    factor_tps = ftps ! i\<rparr>)
           [0..<length df_indexed])"

text \<open>
  The rows of a time window as the specification words them: \<open>interval_ticks\<close> are
  the positions of all ticks of the table whose timestamp lies in \<open>(T - w, T]\<close>, where
  \<open>T\<close> is the timestamp of row \<open>i\<close>; \<open>trailing_ticks\<close> are those among them that
  are at or before row \<open>i\<close>.
\<close>

definition interval_ticks :: "int \<Rightarrow> int list \<Rightarrow> nat \<Rightarrow> nat list" where
  "interval_ticks w index i =
     filter (\<lambda>j. index ! i - w < index ! j \<and> index ! j \<le> index ! i) [0..<length index]"

definition trailing_ticks :: "int \<Rightarrow> int list \<Rightarrow> nat \<Rightarrow> nat list" where
  "trailing_ticks w index i =
     filter (\<lambda>j. index ! i - w < index ! j \<and> index ! j \<le> index ! i) [0..<Suc i]"

definition null_as_zero :: "real option \<Rightarrow> real" where
  "null_as_zero v = (case v of None \<Rightarrow> 0 | Some x \<Rightarrow> x)"

text \<open>
  What the specification gives as \<open>window_vol\<close> and \<open>window_count\<close> of row \<open>i\<close>:
  the sum of volume, a null volume counting 0, and the number of ticks, over all ticks
  of the table with timestamp in \<open>(T - w, T]\<close>.
\<close>

definition claimed_window_vol :: "int \<Rightarrow> tick list \<Rightarrow> nat \<Rightarrow> real" where
  "claimed_window_vol window_ms out i =
     (\<Sum>j\<leftarrow>interval_ticks (window_ms * 1000000) (map timestamp out) i.
        null_as_zero (volume (out ! j)))"

definition claimed_window_count :: "int \<Rightarrow> (int \<times> raw_row) list \<Rightarrow> nat \<Rightarrow> real" where
  "claimed_window_count tps_window_sec df_indexed i =
     real (length (interval_ticks (tps_window_sec * 1000000000) (map fst df_indexed) i))"

text \<open>
  Concrete input tables: two ticks with the same timestamp, one tick whose volume did
  not parse, four ticks at 0 s, 4 s, 9 s and 12 s, and three ticks at 0 s, 0.2 s (null
  volume) and 0.6 s.
\<close>

definition mk_raw :: "int \<Rightarrow> real option \<Rightarrow> raw_row" where
  "mk_raw t v = \<lparr>Timestamp = Some t, Precio = Some 100, Volumen = v, Lado = Some ''BUY'',
                 Bid = Some 100, Ask = Some 101\<rparr>"

definition twin_ticks :: "raw_row list" where
  "twin_ticks = [mk_raw 0 (Some 2), mk_raw 0 (Some 2)]"

definition null_volume_tick :: "raw_row list" where
  "null_volume_tick = [mk_raw 0 None]"

definition spaced_ticks :: "raw_row list" where
  "spaced_ticks = [mk_raw 0 (Some 1), mk_raw 4000000000 (Some 1), mk_raw 9000000000 (Some 1),
                   mk_raw 12000000000 (Some 1)]"

definition three_ticks :: "raw_row list" where
  "three_ticks = [mk_raw 0 (Some 1), mk_raw 200000000 None, mk_raw 600000000 (Some 5)]"

section \<open>Temporal Feature Builder: \<open>engineer_features\<close>\<close>

record frow =
  base :: tick
  factor_tps_lag_1 :: "real option"
  factor_tps_lag_2 :: "real option"
  factor_tps_lag_3 :: "real option"
  factor_tps_lag_4 :: "real option"
  factor_tps_lag_5 :: "real option"
  factor_tps_mean_5 :: "real option"
  factor_tps_std_5 :: "real option"
  price_velocity_5 :: "real option"

definition fillna :: "'a \<Rightarrow> 'a option \<Rightarrow> 'a option" where
  "fillna v x = (case x of None \<Rightarrow> Some v | Some y \<Rightarrow> Some y)"

text \<open>\<open>shift(k)\<close>: row \<open>j\<close> takes the value of row \<open>j - k\<close>, NaN in the first \<open>k\<close> rows.\<close>

definition shift :: "nat \<Rightarrow> 'a option list \<Rightarrow> 'a option list" where
  "shift k xs = map (\<lambda>j. if j < k then None else xs ! (j - k)) [0..<length xs]"

definition sub_opt :: "real option \<Rightarrow> real option \<Rightarrow> real option" where
  "sub_opt a b = (case (a, b) of (Some x, Some y) \<Rightarrow> Some (x - y) | _ \<Rightarrow> None)"

text \<open>\<open>diff(k)\<close> is the column minus its shift by \<open>k\<close>.\<close>

definition diff :: "nat \<Rightarrow> real option list \<Rightarrow> real option list" where
  "diff k xs = map2 sub_opt xs (shift k xs)"

text \<open>
  \<open>rolling(window=n)\<close> with an integer window: the slice of row \<open>i\<close> is
  \<open>[max 0 (i + 1 - n), i + 1)\<close> and \<open>min_periods\<close> is \<open>n\<close>. The mean is the sum of the
  observations over their number; the standard deviation is the sample one (\<open>ddof = 1\<close>).
\<close>

definition rolling_fixed :: "nat \<Rightarrow> 'a list \<Rightarrow> ('a list \<Rightarrow> 'b) \<Rightarrow> 'b list" where
  "rolling_fixed n col agg =
     map (\<lambda>i. agg (window_values col (Suc i - n) (Suc i))) [0..<length col]"

definition roll_mean :: "nat \<Rightarrow> real option list \<Rightarrow> real option" where
  "roll_mean min_periods vs =
     (let obs = observations vs
      in if min_periods \<le> length obs \<and> 0 < length obs
         then Some (sum_list obs / real (length obs)) else None)"

definition roll_std :: "nat \<Rightarrow> real option list \<Rightarrow> real option" where
  "roll_std min_periods vs =
     (let obs = observations vs
      in if min_periods \<le> length obs \<and> 1 < length obs
         then (let m = sum_list obs / real (length obs)
               in Some (sqrt (sum_list (map (\<lambda>x. (x - m)\<^sup>2) obs) / real (length obs - 1))))
         else None)"

text \<open>The frame with the feature columns attached, before the NaN drop.\<close>

definition features_frame :: "tick list \<Rightarrow> frow list" where
  "features_frame df =
     (let factor = map (\<lambda>r. fillna 0 (factor_tps r)) df;
          prices = map price df;
          mean_5 = rolling_fixed 5 factor (roll_mean 5);
          std_5 = map (fillna 0) (rolling_fixed 5 factor (roll_std 5));
          velocity = diff 5 prices
      in map (\<lambda>j. \<lparr>base = (df ! j)\<lparr>factor_tps := factor ! j\<rparr>,
                    factor_tps_lag_1 = shift 1 factor ! j,
                    factor_tps_lag_2 = shift 2 factor ! j,
                    factor_tps_lag_3 = shift 3 factor ! j,
                    factor_tps_lag_4 = shift 4 factor ! j,
                    factor_tps_lag_5 = shift 5 factor ! j,
                    factor_tps_mean_5 = mean_5 ! j,
                    factor_tps_std_5 = std_5 ! j,
                    price_velocity_5 = velocity ! j\<rparr>)
           [0..<length df])"

text \<open>\<open>dropna()\<close> removes every row that has a NaN in any column.\<close>

definition has_nan :: "frow \<Rightarrow> bool" where
  "has_nan r \<longleftrightarrow>
     price (base r) = None \<or> volume (base r) = None \<or> side (base r) = None \<or>
     bid (base r) = None \<or> ask (base r) = None \<or> window_vol (base r) = None \<or>
     tps_window (base r) = None \<or> factor_tps (base r) = None \<or>
     factor_tps_lag_1 r = None \<or> factor_tps_lag_2 r = None \<or> factor_tps_lag_3 r = None \<or>
     factor_tps_lag_4 r = None \<or> factor_tps_lag_5 r = None \<or>
     factor_tps_mean_5 r = None \<or> factor_tps_std_5 r = None \<or> price_velocity_5 r = None"

definition dropna :: "frow list \<Rightarrow> frow list" where
  "dropna df = filter (\<lambda>r. \<not> has_nan r) df"

definition engineer_features :: "tick list \<Rightarrow> frow list" where
  "engineer_features df = dropna (features_frame df)"

text \<open>
  A row with no null cell, a row with no null cell other than \<open>factor_tps\<close>, and a
  row with a null \<open>factor_tps\<close> set to 0.
\<close>

definition no_nulls :: "tick \<Rightarrow> bool" where
  "no_nulls r \<longleftrightarrow>
     price r \<noteq> None \<and> volume r \<noteq> None \<and> side r \<noteq> None \<and> bid r \<noteq> None \<and>
     ask r \<noteq> None \<and> window_vol r \<noteq> None \<and> tps_window r \<noteq> None \<and> factor_tps r \<noteq> None"

definition no_nulls_but_factor :: "tick \<Rightarrow> bool" where
  "no_nulls_but_factor r \<longleftrightarrow>
     price r \<noteq> None \<and> volume r \<noteq> None \<and> side r \<noteq> None \<and> bid r \<noteq> None \<and>
     ask r \<noteq> None \<and> window_vol r \<noteq> None \<and> tps_window r \<noteq> None"

definition zero_filled :: "tick \<Rightarrow> tick" where
  "zero_filled r = r\<lparr>factor_tps := fillna 0 (factor_tps r)\<rparr>"

section \<open>Label Heuristic: \<open>define_labels\<close>\<close>

record lrow =
  feat :: frow
  future_price_max :: "real option"
  future_price_min :: "real option"
  price_move_up :: "real option"
  price_move_down :: "real option"
  max_future_move :: "real option"
  is_initiation :: int

text \<open>
  \<open>FixedForwardWindowIndexer(window_size)\<close>: the slice of row \<open>i\<close> starts at \<open>i\<close>
  itself and ends at \<open>i + window_size\<close>, clipped to the number of rows when
  \<open>window_size\<close> is not 0; \<open>min_periods\<close> is \<open>window_size\<close>. An empty window gives NaN.
\<close>

definition forward_end :: "nat \<Rightarrow> nat \<Rightarrow> nat \<Rightarrow> nat" where
  "forward_end window_size num_values i =
     (if window_size \<noteq> 0 then min (i + window_size) num_values else i + window_size)"

definition rolling_forward :: "nat \<Rightarrow> 'a list \<Rightarrow> ('a list \<Rightarrow> 'b) \<Rightarrow> 'b list" where
  "rolling_forward window_size col agg =
     map (\<lambda>i. agg (window_values col i (forward_end window_size (length col) i)))
       [0..<length col]"

definition roll_max :: "nat \<Rightarrow> real option list \<Rightarrow> real option" where
  "roll_max min_periods vs =
     (case observations vs of [] \<Rightarrow> None
      | v # rest \<Rightarrow> if min_periods \<le> Suc (length rest) then Some (fold max rest v) else None)"

definition roll_min_real :: "nat \<Rightarrow> real option list \<Rightarrow> real option" where
  "roll_min_real min_periods vs =
     (case observations vs of [] \<Rightarrow> None
      | v # rest \<Rightarrow> if min_periods \<le> Suc (length rest) then Some (fold min rest v) else None)"

text \<open>\<open>DataFrame.max(axis=1)\<close> over two columns skips NaN.\<close>

definition max_skipna :: "real option \<Rightarrow> real option \<Rightarrow> real option" where
  "max_skipna a b =
     (case (a, b) of
        (Some x, Some y) \<Rightarrow> Some (max x y)
      | (Some x, None) \<Rightarrow> Some x
      | (None, Some y) \<Rightarrow> Some y
      | (None, None) \<Rightarrow> None)"

definition define_labels :: "real \<Rightarrow> real \<Rightarrow> nat \<Rightarrow> frow list \<Rightarrow> lrow list" where
  "define_labels tps_threshold price_move_threshold future_window df =
     (let prices = map (\<lambda>r. price (base r)) df;
          fmax = rolling_forward future_window prices (roll_max future_window);
          fmin = rolling_forward future_window prices (roll_min_real future_window)
      in map (\<lambda>i.
           (let up = sub_opt (fmax ! i) (prices ! i);
                down = sub_opt (prices ! i) (fmin ! i);
                move = max_skipna up down
            in \<lparr>feat = df ! i,
                future_price_max = fmax ! i,
                future_price_min = fmin ! i,
                price_move_up = up,
                price_move_down = down,
                max_future_move = move,
                is_initiation =
                  (if gt_nan (factor_tps (base (df ! i))) tps_threshold \<and>
                      ge_nan move price_move_threshold
                   then 1 else 0)\<rparr>))
           [0..<length df])"

text \<open>
  The forward window as the specification words it: the \<open>future_window\<close> rows that
  follow row \<open>i\<close>, the row itself left out.
\<close>

definition rows_after :: "nat \<Rightarrow> 'a list \<Rightarrow> nat \<Rightarrow> 'a list" where
  "rows_after future_window xs i = take future_window (drop (Suc i) xs)"

text \<open>
  What the specification gives as \<open>future_price_max\<close> of row \<open>i\<close>: the maximum of
  price over the rows after it.
\<close>

definition claimed_future_price_max :: "nat \<Rightarrow> frow list \<Rightarrow> nat \<Rightarrow> real option" where
  "claimed_future_price_max future_window df i =
     (case observations (rows_after future_window (map (\<lambda>r. price (base r)) df) i) of
        [] \<Rightarrow> None
      | v # rest \<Rightarrow> Some (fold max rest v))"

text \<open>Rows for concrete tables.\<close>

definition mk_tick :: "int \<Rightarrow> real option \<Rightarrow> real option \<Rightarrow> tick" where
  "mk_tick t p f = \<lparr>timestamp = t, price = p, volume = Some 1, side = Some ''BUY'',
                    bid = Some 100, ask = Some 101, window_vol = Some 1,
                    tps_window = Some 1, factor_tps = f\<rparr>"

definition mk_frow :: "real option \<Rightarrow> real option \<Rightarrow> frow" where
  "mk_frow p f = \<lparr>base = mk_tick 0 p f,
                  factor_tps_lag_1 = Some 0, factor_tps_lag_2 = Some 0,
                  factor_tps_lag_3 = Some 0, factor_tps_lag_4 = Some 0,
                  factor_tps_lag_5 = Some 0, factor_tps_mean_5 = Some 0,
                  factor_tps_std_5 = Some 0, price_velocity_5 = Some 0\<rparr>"

text \<open>
  Two tables of 11 feature rows: in \<open>label_rows\<close> the price steps from 10 to 13.5
  and back, with \<open>factor_tps\<close> 4001 in row 0 and 4000 in row 1; in \<open>spike_rows\<close> the
  price is 10 in row 0 and 1 in the rows after it.
\<close>

definition label_rows :: "frow list" where
  "label_rows =
     [mk_frow (Some 10) (Some 4001), mk_frow (Some (27 / 2)) (Some 4000),
      mk_frow (Some 10) (Some 0), mk_frow (Some 10) (Some 0), mk_frow (Some 10) (Some 0),
      mk_frow (Some 10) (Some 0), mk_frow (Some 10) (Some 0), mk_frow (Some 10) (Some 0),
      mk_frow (Some 10) (Some 0), mk_frow (Some 10) (Some 0), mk_frow (Some 10) (Some 0)]"

definition spike_rows :: "frow list" where
  "spike_rows =
     [mk_frow (Some 10) (Some 5000), mk_frow (Some 1) (Some 0),
      mk_frow (Some 1) (Some 0), mk_frow (Some 1) (Some 0), mk_frow (Some 1) (Some 0),
      mk_frow (Some 1) (Some 0), mk_frow (Some 1) (Some 0), mk_frow (Some 1) (Some 0),
      mk_frow (Some 1) (Some 0), mk_frow (Some 1) (Some 0), mk_frow (Some 1) (Some 0)]"

text \<open>
  Two tick tables: six rows without a null, and seven rows where \<open>factor_tps\<close> is
  null in rows 3 and 6 and the price is null in row 5.
\<close>

definition six_ticks :: "tick list" where
  "six_ticks = map (\<lambda>t. mk_tick t (Some 100) (Some 1)) [0, 1, 2, 3, 4, 5]"

definition seven_ticks :: "tick list" where
  "seven_ticks =
     [mk_tick 0 (Some 100) (Some 1), mk_tick 1 (Some 101) (Some 1), mk_tick 2 (Some 102) (Some 1),
      mk_tick 3 (Some 103) None, mk_tick 4 (Some 104) (Some 1), mk_tick 5 None (Some 1),
      mk_tick 6 (Some 106) None]"

section \<open>Properties of the time windows\<close>

declare advance_start.simps [simp del]

lemma advance_start_bounds:
  "j0 \<le> i \<Longrightarrow> j0 \<le> advance_start index b j0 i \<and> advance_start index b j0 i \<le> i"
proof (induction index b j0 i rule: advance_start.induct)
  case (1 index start_bound j i)
  show ?case
  proof (cases "j < i \<and> \<not> 0 < index ! j - start_bound")
    case True
    then have "Suc j \<le> advance_start index start_bound (Suc j) i \<and>
               advance_start index start_bound (Suc j) i \<le> i"
      using "1.IH" by simp
    with True show ?thesis by (subst (1 2) advance_start.simps) simp
  next
    case False
    with "1.prems" show ?thesis by (subst (1 2) advance_start.simps) auto
  qed
qed

lemma advance_start_skipped:
  "j0 \<le> j \<Longrightarrow> j < advance_start index b j0 i \<Longrightarrow> index ! j \<le> b"
proof (induction index b j0 i rule: advance_start.induct)
  case (1 index start_bound j0 i)
  from "1.prems" have step: "j0 < i \<and> \<not> 0 < index ! j0 - start_bound"
    by (subst (asm) advance_start.simps) (auto split: if_splits)
  then have eq: "advance_start index start_bound j0 i = advance_start index start_bound (Suc j0) i"
    by (subst advance_start.simps) simp
  show ?case
  proof (cases "j = j0")
    case True
    with step show ?thesis by simp
  next
    case False
    with "1.prems" have "Suc j0 \<le> j" by simp
    with "1.IH" step "1.prems"(2) eq show ?thesis by simp
  qed
qed

lemma advance_start_hit:
  "advance_start index b j0 i < i \<Longrightarrow> b < index ! advance_start index b j0 i"
proof (induction index b j0 i rule: advance_start.induct)
  case (1 index start_bound j i)
  show ?case
  proof (cases "j < i")
    case False
    then have "advance_start index start_bound j i = i"
      by (subst advance_start.simps) simp
    with "1.prems" show ?thesis by simp
  next
    case True
    show ?thesis
    proof (cases "0 < index ! j - start_bound")
      case hit: True
      with True have "advance_start index start_bound j i = j"
        by (subst advance_start.simps) simp
      with hit show ?thesis by simp
    next
      case miss: False
      with True have eq: "advance_start index start_bound j i = advance_start index start_bound (Suc j) i"
        by (subst advance_start.simps) simp
      with "1.IH" True miss "1.prems" show ?thesis by simp
    qed
  qed
qed

lemma window_start_le: "window_start index w i \<le> i"
proof (induction i)
  case 0
  show ?case by simp
next
  case (Suc i)
  then have "window_start index w i \<le> Suc i" by simp
  from advance_start_bounds [OF this] show ?case by simp
qed

lemma window_start_before:
  "sorted index \<Longrightarrow> i < length index \<Longrightarrow> j < window_start index w i \<Longrightarrow> index ! j \<le> index ! i - w"
proof (induction i)
  case 0
  then show ?case by simp
next
  case (Suc i)
  let ?s = "window_start index w i"
  show ?case
  proof (cases "j < ?s")
    case True
    with Suc have "index ! j \<le> index ! i - w" by simp
    moreover from Suc.prems have "index ! i \<le> index ! Suc i"
      by (simp add: sorted_iff_nth_mono)
    ultimately show ?thesis by simp
  next
    case False
    then have "?s \<le> j" by simp
    moreover from Suc.prems(3) have "j < advance_start index (index ! Suc i - w) ?s (Suc i)"
      by simp
    ultimately show ?thesis by (rule advance_start_skipped)
  qed
qed

lemma window_start_inside:
  assumes "sorted index" and "0 < w" and "i < length index"
    and "window_start index w i \<le> j" and "j \<le> i"
  shows "index ! i - w < index ! j"
proof (cases i)
  case 0
  with assms show ?thesis by simp
next
  case (Suc k)
  let ?s = "advance_start index (index ! Suc k - w) (window_start index w k) (Suc k)"
  have s: "window_start index w i = ?s" using Suc by simp
  show ?thesis
  proof (cases "?s < Suc k")
    case True
    then have "index ! Suc k - w < index ! ?s" by (rule advance_start_hit)
    moreover have "index ! ?s \<le> index ! j"
      using assms s Suc by (simp add: sorted_iff_nth_mono)
    ultimately show ?thesis using Suc by simp
  next
    case False
    with assms s Suc have "j = i" by simp
    with assms show ?thesis by simp
  qed
qed

lemma window_end_eq: "window_end index i = Suc i"
  by (induction i) simp_all

lemma filter_upt_split:
  assumes "s \<le> n" and "\<And>j. j < s \<Longrightarrow> \<not> P j" and "\<And>j. s \<le> j \<Longrightarrow> j < n \<Longrightarrow> P j"
  shows "filter P [0..<n] = [s..<n]"
proof -
  have "[0..<n] = [0..<s] @ [s..<n]"
    using assms(1) by (metis le_add_diff_inverse upt_add_eq_append zero_le)
  moreover have "filter P [0..<s] = []" using assms(2) by (simp add: filter_empty_conv)
  moreover have "filter P [s..<n] = [s..<n]" using assms(3) by (simp add: filter_id_conv)
  ultimately show ?thesis by simp
qed

lemma window_values_nth:
  "e \<le> length xs \<Longrightarrow> window_values xs s e = map (\<lambda>j. xs ! j) [s..<e]"
  by (rule nth_equalityI) (auto simp: window_values_def)

lemma trailing_ticks_eq:
  assumes "sorted index" and "0 < w" and "i < length index"
  shows "trailing_ticks w index i = [window_start index w i..<Suc i]"
  unfolding trailing_ticks_def
proof (rule filter_upt_split)
  show "window_start index w i \<le> Suc i" using window_start_le [of index w i] by simp
next
  fix j assume "j < window_start index w i"
  from window_start_before [OF assms(1,3) this] assms(2)
  show "\<not> (index ! i - w < index ! j \<and> index ! j \<le> index ! i)" by simp
next
  fix j assume j: "window_start index w i \<le> j" "j < Suc i"
  then have "index ! i - w < index ! j"
    using window_start_inside [OF assms, of j] by simp
  moreover have "index ! j \<le> index ! i"
    using assms j by (simp add: sorted_iff_nth_mono)
  ultimately show "index ! i - w < index ! j \<and> index ! j \<le> index ! i" ..
qed

lemma trailing_ticks_le: "j \<in> set (trailing_ticks w index i) \<Longrightarrow> j \<le> i"
  unfolding trailing_ticks_def by (simp del: upt_Suc)

lemma rolling_time_nth:
  assumes "i < length index"
  shows "rolling_time w index col agg ! i =
         agg (window_values col (window_start index w i) (Suc i))"
  using assms by (simp add: rolling_time_def window_end_eq)

lemma rolling_time_trailing:
  assumes "sorted index" and "0 < w" and "i < length index" and "length col = length index"
  shows "rolling_time w index col agg ! i = agg (map (\<lambda>j. col ! j) (trailing_ticks w index i))"
proof -
  have "Suc i \<le> length col" using assms by simp
  then show ?thesis
    using assms by (simp add: rolling_time_nth window_values_nth trailing_ticks_eq)
qed

lemma length_rolling_time [simp]: "length (rolling_time w index col agg) = length index"
  by (simp add: rolling_time_def)

lemma observations_Nil [simp]: "observations [] = []"
  by (simp add: observations_def map_filter_simps)

lemma observations_None [simp]: "observations (None # vs) = observations vs"
  by (simp add: observations_def map_filter_simps)

lemma observations_Some [simp]: "observations (Some x # vs) = x # observations vs"
  by (simp add: observations_def map_filter_simps)

lemma observations_all_Some: "\<forall>v \<in> set vs. v \<noteq> None \<Longrightarrow> length (observations vs) = length vs"
  by (induction vs) auto

lemma observations_empty_iff: "observations vs = [] \<longleftrightarrow> (\<forall>v \<in> set vs. v = None)"
proof (induction vs)
  case Nil
  show ?case by simp
next
  case (Cons v vs)
  then show ?case by (cases v) simp_all
qed

lemma sum_list_observations: "sum_list (observations vs) = (\<Sum>v\<leftarrow>vs. null_as_zero v)"
proof (induction vs)
  case Nil
  show ?case by simp
next
  case (Cons v vs)
  then show ?case by (cases v) (simp_all add: null_as_zero_def)
qed

lemma roll_sum_1:
  "roll_sum 1 vs = (if \<forall>v \<in> set vs. v = None then None else Some (\<Sum>v\<leftarrow>vs. null_as_zero v))"
proof -
  have "1 \<le> length (observations vs) \<longleftrightarrow> observations vs \<noteq> []"
    by (cases "observations vs") simp_all
  then show ?thesis
    by (simp add: roll_sum_def Let_def observations_empty_iff sum_list_observations)
qed

lemma length_process_historical_file:
  "length (process_historical_file srt wms tsec df) = length (srt (dropna_Timestamp df))"
  by (simp add: process_historical_file_def Let_def)

lemma process_historical_file_nth:
  assumes "i < length (srt (dropna_Timestamp df))"
  shows "timestamp (process_historical_file srt wms tsec df ! i) = fst (srt (dropna_Timestamp df) ! i)"
    and "volume (process_historical_file srt wms tsec df ! i) = Volumen (snd (srt (dropna_Timestamp df) ! i))"
    and "window_vol (process_historical_file srt wms tsec df ! i) = rolling_window_vol wms (srt (dropna_Timestamp df)) ! i"
    and "tps_window (process_historical_file srt wms tsec df ! i) = tps_window_col tsec (srt (dropna_Timestamp df)) ! i"
    and "factor_tps (process_historical_file srt wms tsec df ! i) = factor_tps_col wms tsec (srt (dropna_Timestamp df)) ! i"
  using assms by (simp_all add: process_historical_file_def Let_def)

lemma map_timestamp_process_historical_file:
  "map timestamp (process_historical_file srt wms tsec df) = map fst (srt (dropna_Timestamp df))"
  by (rule nth_equalityI)
    (simp_all add: length_process_historical_file process_historical_file_nth)

lemma rint_of_int: "rint (of_int k) = k"
  by (simp add: rint_def)

lemma round_decimals_idem: "round_decimals n (round_decimals n x) = round_decimals n x"
  by (simp add: round_decimals_def rint_of_int)

lemma window_values_nonempty:
  "s \<le> i \<Longrightarrow> i < length xs \<Longrightarrow> window_values xs s (Suc i) \<noteq> []"
  by (simp add: window_values_def)

lemma roll_min_nonempty: "vs \<noteq> [] \<Longrightarrow> \<exists>m. roll_min 1 vs = Some m"
  by (cases vs) (simp_all add: roll_min_def)

lemma length_min_ts_in_window [simp]:
  "length (min_ts_in_window tsec df_indexed) = length df_indexed"
  by (simp add: min_ts_in_window_def)

lemma length_rolling_window_count [simp]:
  "length (rolling_window_count tsec df_indexed) = length df_indexed"
  by (simp add: rolling_window_count_def)

lemma length_rolling_window_vol [simp]:
  "length (rolling_window_vol wms df_indexed) = length df_indexed"
  by (simp add: rolling_window_vol_def)

lemma length_duration_sec [simp]:
  "length (duration_sec tsec df_indexed) = length df_indexed"
  by (simp add: duration_sec_def)

lemma length_tps_window_col [simp]:
  "length (tps_window_col tsec df_indexed) = length df_indexed"
  by (simp add: tps_window_col_def)

lemma duration_sec_nth:
  "i < length df_indexed \<Longrightarrow>
   duration_sec tsec df_indexed ! i =
     map_option (\<lambda>m. real_of_int (fst (df_indexed ! i) - m) / 1000000000)
       (min_ts_in_window tsec df_indexed ! i)"
  by (simp add: duration_sec_def)

lemma tps_window_col_nth:
  "i < length df_indexed \<Longrightarrow>
   tps_window_col tsec df_indexed ! i =
     map_option (round_decimals 2)
       (calc_tps (rolling_window_count tsec df_indexed ! i) (duration_sec tsec df_indexed ! i))"
  by (simp add: tps_window_col_def)

lemma min_ts_in_window_defined:
  assumes "i < length df_indexed"
  shows "\<exists>m. min_ts_in_window tsec df_indexed ! i = Some m"
proof -
  let ?index = "map fst df_indexed"
  have "window_values ?index (window_start ?index (tsec * 1000000000) i) (Suc i) \<noteq> []"
    using assms by (intro window_values_nonempty window_start_le) simp
  from roll_min_nonempty [OF this] show ?thesis
    unfolding min_ts_in_window_def using assms by (simp only: rolling_time_nth length_map)
qed

lemma duration_sec_defined:
  assumes "i < length df_indexed"
  shows "\<exists>d. duration_sec tsec df_indexed ! i = Some d"
proof -
  from min_ts_in_window_defined [OF assms] obtain m
    where "min_ts_in_window tsec df_indexed ! i = Some m" by blast
  then have "duration_sec tsec df_indexed ! i =
             Some (real_of_int (fst (df_indexed ! i) - m) / 1000000000)"
    by (simp add: duration_sec_nth [OF assms])
  then show ?thesis ..
qed

lemma calc_tps_defined: "\<exists>t. calc_tps cnt (Some d) = Some t"
  by (simp add: calc_tps_def)

lemma tps_window_col_rounded:
  assumes "i < length df_indexed"
  shows "\<exists>t. tps_window_col tsec df_indexed ! i = Some t \<and> round_decimals 2 t = t"
proof -
  from duration_sec_defined [OF assms] obtain d
    where d: "duration_sec tsec df_indexed ! i = Some d" by blast
  obtain t where t: "calc_tps (rolling_window_count tsec df_indexed ! i) (Some d) = Some t"
    using calc_tps_defined by blast
  have "tps_window_col tsec df_indexed ! i = Some (round_decimals 2 t)"
    using d t by (simp add: tps_window_col_nth [OF assms])
  then show ?thesis by (simp add: round_decimals_idem)
qed

lemma factor_tps_col_nth:
  assumes "i < length df_indexed"
  shows "factor_tps_col wms tsec df_indexed ! i =
         (case (rolling_window_vol wms df_indexed ! i, tps_window_col tsec df_indexed ! i) of
            (Some v, Some t) \<Rightarrow> Some (round_decimals 2 (v * t))
          | _ \<Rightarrow> None)"
  using assms by (simp add: factor_tps_col_def)

section \<open>The rate of a burst\<close>

text \<open>
  C1. The specification gives the rate 0 when more than one tick is in the window and
  the window lasts at most 0.001 s. The code returns the count there: of two ticks with
  the identical timestamp, the second has \<open>window_count = 2\<close>, \<open>window_duration = 0\<close>
  and \<open>tps_window = 2\<close>.
\<close>

theorem C1_tps_window_of_twin_tick:
  "tps_window (process_historical_file (sort_key fst) 500 10 twin_ticks ! 1) = Some 2"
  by code_simp

section \<open>Window volume\<close>

text \<open>
  C5, as the code has it. In a table sorted by timestamp, \<open>window_vol\<close> of row \<open>i\<close>
  (time \<open>T\<close>) is the sum of the volumes that are not null over the ticks at or before
  row \<open>i\<close> whose timestamp lies in \<open>(T - window_ms, T]\<close>, and it is null when none of
  these ticks has a volume. The function is total: a null volume never makes it fail.
\<close>

theorem C5_window_vol_trailing_sum:
  assumes "out = process_historical_file sort_values window_ms tps_window_sec df"
    and "sorted (map timestamp out)" and "0 < window_ms" and "i < length out"
  shows "window_vol (out ! i) =
         (if \<forall>j \<in> set (trailing_ticks (window_ms * 1000000) (map timestamp out) i).
               volume (out ! j) = None
          then None
          else Some (\<Sum>j\<leftarrow>trailing_ticks (window_ms * 1000000) (map timestamp out) i.
                       null_as_zero (volume (out ! j))))"
proof -
  let ?dfi = "sort_values (dropna_Timestamp df)"
  let ?index = "map fst ?dfi"
  let ?vol = "map (\<lambda>r. Volumen (snd r)) ?dfi"
  let ?W = "trailing_ticks (window_ms * 1000000) ?index i"
  have ts: "map timestamp out = ?index"
    using assms(1) by (simp add: map_timestamp_process_historical_file)
  have i: "i < length ?dfi"
    using assms(1,4) by (simp add: length_process_historical_file)
  have sorted: "sorted ?index" using assms(2) ts by simp
  have inW: "j < length ?dfi" if "j \<in> set ?W" for j
    using trailing_ticks_le [OF that] i by simp
  have vol: "volume (out ! j) = ?vol ! j" if "j \<in> set ?W" for j
    using inW [OF that] assms(1) by (simp add: process_historical_file_nth)
  have "window_vol (out ! i) = rolling_window_vol window_ms ?dfi ! i"
    using i assms(1) by (simp add: process_historical_file_nth)
  also have "\<dots> = roll_sum 1 (map (\<lambda>j. ?vol ! j) ?W)"
    unfolding rolling_window_vol_def
    using sorted assms(3) i by (subst rolling_time_trailing) simp_all
  also have "\<dots> = roll_sum 1 (map (\<lambda>j. volume (out ! j)) ?W)"
    using vol by (simp cong: map_cong)
  finally show ?thesis
    unfolding ts roll_sum_1 by (simp add: comp_def)
qed


theorem C5_window_vol_trailing_sum_witness:
  "sorted (map timestamp (process_historical_file (sort_key fst) 500 10 three_ticks)) \<and>
   (0::int) < 500 \<and>
   2 < length (process_historical_file (sort_key fst) 500 10 three_ticks) \<and>
   trailing_ticks (500 * 1000000)
     (map timestamp (process_historical_file (sort_key fst) 500 10 three_ticks)) 2 = [1, 2] \<and>
   window_vol (process_historical_file (sort_key fst) 500 10 three_ticks ! 2) = Some 5"
proof -
  let ?out = "process_historical_file (sort_key fst) 500 10 three_ticks"
  have h1: "sorted (map timestamp ?out)" by code_simp
  have h2: "2 < length ?out" by code_simp
  have W: "trailing_ticks (500 * 1000000) (map timestamp ?out) 2 = [1, 2]" by code_simp
  have v: "volume (?out ! Suc 0) = None" "volume (?out ! 2) = Some 5" by code_simp+
  from C5_window_vol_trailing_sum [OF refl h1 _ h2]
  have "window_vol (?out ! 2) = Some 5"
    unfolding W by (simp add: v null_as_zero_def)
  with h1 h2 W show ?thesis by simp
qed

text \<open>
  C5 as stated fails twice. Of two ticks with the same timestamp and volume 2 each, the
  first has \<open>window_vol = 2\<close>, while the sum over all ticks with that timestamp is 4.
  A lone tick with a null volume has a null \<open>window_vol\<close>, not 0.
\<close>

theorem C5_window_vol_counterexample:
  "window_vol (process_historical_file (sort_key fst) 500 10 twin_ticks ! 0) = Some 2 \<and>
   claimed_window_vol 500 (process_historical_file (sort_key fst) 500 10 twin_ticks) 0 = 4 \<and>
   window_vol (process_historical_file (sort_key fst) 500 10 null_volume_tick ! 0) = None \<and>
   claimed_window_vol 500 (process_historical_file (sort_key fst) 500 10 null_volume_tick) 0 = 0"
  by code_simp

section \<open>Tick count of the rate window\<close>

text \<open>
  C7, as the code has it. In a table sorted by timestamp, \<open>window_count\<close> of row \<open>i\<close>
  (time \<open>T\<close>) is the number of ticks at or before row \<open>i\<close> whose timestamp lies in
  \<open>(T - tps_window_sec, T]\<close>, when each of these ticks has a volume. (The count is
  taken over the volume column; what it is when a volume is null is left open here.)
\<close>

theorem C7_window_count_trailing:
  assumes "df_indexed = sort_values (dropna_Timestamp df)"
    and "sorted (map fst df_indexed)" and "0 < tps_window_sec" and "i < length df_indexed"
    and "\<forall>j \<in> set (trailing_ticks (tps_window_sec * 1000000000) (map fst df_indexed) i).
           Volumen (snd (df_indexed ! j)) \<noteq> None"
  shows "rolling_window_count tps_window_sec df_indexed ! i =
         real (length (trailing_ticks (tps_window_sec * 1000000000) (map fst df_indexed) i))"
proof -
  let ?index = "map fst df_indexed"
  let ?vol = "map (\<lambda>r. Volumen (snd r)) df_indexed"
  let ?W = "trailing_ticks (tps_window_sec * 1000000000) ?index i"
  have inW: "j < length df_indexed" if "j \<in> set ?W" for j
    using trailing_ticks_le [OF that] assms(4) by simp
  have "rolling_window_count tps_window_sec df_indexed ! i = roll_count (map (\<lambda>j. ?vol ! j) ?W)"
    unfolding rolling_window_count_def
    using assms(2,3,4) by (subst rolling_time_trailing) simp_all
  moreover have "\<forall>v \<in> set (map (\<lambda>j. ?vol ! j) ?W). v \<noteq> None"
    using assms(5) inW by auto
  ultimately show ?thesis
    by (simp add: roll_count_def observations_all_Some)
qed

theorem C7_window_count_trailing_witness:
  "sorted (map fst (sort_key fst (dropna_Timestamp spaced_ticks))) \<and>
   (0::int) < 10 \<and>
   3 < length (sort_key fst (dropna_Timestamp spaced_ticks)) \<and>
   list_all (\<lambda>j. Volumen (snd (sort_key fst (dropna_Timestamp spaced_ticks) ! j)) \<noteq> None)
     (trailing_ticks (10 * 1000000000)
        (map fst (sort_key fst (dropna_Timestamp spaced_ticks))) 3) \<and>
   trailing_ticks (10 * 1000000000)
     (map fst (sort_key fst (dropna_Timestamp spaced_ticks))) 3 = [1, 2, 3] \<and>
   rolling_window_count 10 (sort_key fst (dropna_Timestamp spaced_ticks)) ! 3 = 3"
proof -
  let ?dfi = "sort_key fst (dropna_Timestamp spaced_ticks)"
  have h1: "sorted (map fst ?dfi)" by code_simp
  have h2: "3 < length ?dfi" by code_simp
  have W: "trailing_ticks (10 * 1000000000) (map fst ?dfi) 3 = [1, 2, 3]" by code_simp
  have h3: "\<forall>j \<in> set (trailing_ticks (10 * 1000000000) (map fst ?dfi) 3).
              Volumen (snd (?dfi ! j)) \<noteq> None"
    unfolding W by code_simp
  from C7_window_count_trailing
    [where sort_values = "sort_key fst" and df = spaced_ticks, OF refl h1 _ h2 h3]
  have "rolling_window_count 10 ?dfi ! 3 = 3" unfolding W by simp
  with h1 h2 h3 W show ?thesis by (simp add: list_all_iff)
qed

text \<open>
  C7 as stated fails: of two ticks with the same timestamp, the first has
  \<open>window_count = 1\<close> while two ticks have that timestamp; and a lone tick with a null
  volume has \<open>window_count = 0\<close>, not 1.
\<close>

theorem C7_window_count_counterexample:
  "rolling_window_count 10 (sort_key fst (dropna_Timestamp twin_ticks)) ! 0 = 1 \<and>
   claimed_window_count 10 (sort_key fst (dropna_Timestamp twin_ticks)) 0 = 2 \<and>
   rolling_window_count 10 (sort_key fst (dropna_Timestamp null_volume_tick)) ! 0 = 0 \<and>
   claimed_window_count 10 (sort_key fst (dropna_Timestamp null_volume_tick)) 0 = 1"
  by code_simp

section \<open>Burst factor\<close>

text \<open>
  C6. In every row of the output, \<open>tps_window\<close> is a number already rounded to 2
  decimals, and \<open>factor_tps\<close> is \<open>window_vol * tps_window\<close> rounded to 2 decimals
  (null when \<open>window_vol\<close> is null).
\<close>

theorem C6_factor_tps_composition:
  assumes "out = process_historical_file sort_values window_ms tps_window_sec df"
    and "i < length out"
  shows "\<exists>t. tps_window (out ! i) = Some t \<and> round_decimals 2 t = t \<and>
             factor_tps (out ! i) =
               map_option (\<lambda>v. round_decimals 2 (v * t)) (window_vol (out ! i))"
proof -
  let ?dfi = "sort_values (dropna_Timestamp df)"
  have i: "i < length ?dfi"
    using assms by (simp add: length_process_historical_file)
  from tps_window_col_rounded [OF i] obtain t
    where t: "tps_window_col tps_window_sec ?dfi ! i = Some t" "round_decimals 2 t = t"
    by blast
  have "factor_tps (out ! i) = map_option (\<lambda>v. round_decimals 2 (v * t)) (window_vol (out ! i))"
    using assms(1) i t(1)
    by (simp add: process_historical_file_nth factor_tps_col_nth split: option.splits)
  moreover have "tps_window (out ! i) = Some t"
    using assms(1) i t(1) by (simp add: process_historical_file_nth)
  ultimately show ?thesis using t(2) by blast
qed

theorem C6_factor_tps_composition_witness:
  "2 < length (process_historical_file (sort_key fst) 500 10 three_ticks) \<and>
   tps_window (process_historical_file (sort_key fst) 500 10 three_ticks ! 2) = Some (333 / 100) \<and>
   window_vol (process_historical_file (sort_key fst) 500 10 three_ticks ! 2) = Some 5 \<and>
   factor_tps (process_historical_file (sort_key fst) 500 10 three_ticks ! 2) = Some (333 / 20)"
proof -
  let ?out = "process_historical_file (sort_key fst) 500 10 three_ticks"
  have h: "2 < length ?out" by code_simp
  have t: "tps_window (?out ! 2) = Some (333 / 100)" by code_simp
  have v: "window_vol (?out ! 2) = Some 5" by code_simp
  from C6_factor_tps_composition [OF refl h] obtain t'
    where a: "tps_window (?out ! 2) = Some t'"
      and c: "factor_tps (?out ! 2) =
              map_option (\<lambda>v. round_decimals 2 (v * t')) (window_vol (?out ! 2))"
    by blast
  from a t have "t' = 333 / 100" by simp
  with c v have "factor_tps (?out ! 2) = Some (round_decimals 2 (5 * (333 / 100)))"
    by simp
  moreover have "round_decimals 2 (5 * (333 / 100)) = 333 / 20" by code_simp
  ultimately have "factor_tps (?out ! 2) = Some (333 / 20)" by (simp only:)
  with h t v show ?thesis by simp
qed

section \<open>Properties of the forward windows and the labels\<close>

lemma length_rolling_forward [simp]: "length (rolling_forward fw col agg) = length col"
  by (simp add: rolling_forward_def)

lemma rolling_forward_nth:
  "i < length col \<Longrightarrow>
   rolling_forward fw col agg ! i = agg (window_values col i (forward_end fw (length col) i))"
  by (simp add: rolling_forward_def)

lemma window_forward:
  "0 < fw \<Longrightarrow> window_values col i (forward_end fw (length col) i) = take fw (drop i col)"
  by (simp add: window_values_def forward_end_def min_def)

lemma observations_map_Some [simp]: "observations (map Some xs) = xs"
  by (induction xs) simp_all

lemma length_observations_le: "length (observations vs) \<le> length vs"
proof (induction vs)
  case Nil
  show ?case by simp
next
  case (Cons v vs)
  then show ?case by (cases v) simp_all
qed

lemma fold_max_Max: "fold max xs (x::real) = Max (set (x # xs))"
  by (simp only: Max.set_eq_fold)

lemma fold_min_Min: "fold min xs (x::real) = Min (set (x # xs))"
  by (simp only: Min.set_eq_fold)

lemma roll_max_full:
  "length xs = fw \<Longrightarrow> 0 < fw \<Longrightarrow> roll_max fw (map Some xs) = Some (Max (set xs))"
  by (cases xs) (simp_all add: roll_max_def fold_max_Max)

lemma roll_min_real_full:
  "length xs = fw \<Longrightarrow> 0 < fw \<Longrightarrow> roll_min_real fw (map Some xs) = Some (Min (set xs))"
  by (cases xs) (simp_all add: roll_min_real_def fold_min_Min)

lemma roll_max_short: "length vs < fw \<Longrightarrow> roll_max fw vs = None"
  using length_observations_le [of vs]
  by (cases "observations vs") (auto simp: roll_max_def)

lemma roll_min_real_short: "length vs < fw \<Longrightarrow> roll_min_real fw vs = None"
  using length_observations_le [of vs]
  by (cases "observations vs") (auto simp: roll_min_real_def)

lemma length_define_labels [simp]:
  "length (define_labels thr pthr fw df) = length df"
  by (simp add: define_labels_def Let_def)

lemma define_labels_nth:
  assumes "i < length df"
  shows "feat (define_labels thr pthr fw df ! i) = df ! i"
    and "future_price_max (define_labels thr pthr fw df ! i) =
           roll_max fw (window_values (map (\<lambda>r. price (base r)) df) i (forward_end fw (length df) i))"
    and "future_price_min (define_labels thr pthr fw df ! i) =
           roll_min_real fw (window_values (map (\<lambda>r. price (base r)) df) i (forward_end fw (length df) i))"
    and "price_move_up (define_labels thr pthr fw df ! i) =
           sub_opt (future_price_max (define_labels thr pthr fw df ! i)) (price (base (df ! i)))"
    and "price_move_down (define_labels thr pthr fw df ! i) =
           sub_opt (price (base (df ! i))) (future_price_min (define_labels thr pthr fw df ! i))"
    and "max_future_move (define_labels thr pthr fw df ! i) =
           max_skipna (price_move_up (define_labels thr pthr fw df ! i))
             (price_move_down (define_labels thr pthr fw df ! i))"
    and "is_initiation (define_labels thr pthr fw df ! i) =
           (if gt_nan (factor_tps (base (df ! i))) thr \<and>
               ge_nan (max_future_move (define_labels thr pthr fw df ! i)) pthr
            then 1 else 0)"
  using assms by (simp_all add: define_labels_def Let_def rolling_forward_nth)

text \<open>
  C2, as the code has it. The forward window of row \<open>i\<close> is the \<open>future_window\<close>
  rows that start at row \<open>i\<close> itself. In a table without null prices, for every row
  whose window is complete (\<open>i + future_window \<le> N\<close>), \<open>future_price_max\<close> and
  \<open>future_price_min\<close> are the maximum and minimum of price over rows
  \<open>i, \<dots>, i + future_window - 1\<close>, and \<open>max_future_move\<close> is the larger of
  \<open>future_price_max - price\<close> and \<open>price - future_price_min\<close>.
\<close>

theorem C2_forward_window_from_current_row:
  assumes "out = define_labels tps_threshold price_move_threshold future_window df"
    and "map (\<lambda>r. price (base r)) df = map Some prices"
    and "0 < future_window" and "i + future_window \<le> length df"
  shows "future_price_max (out ! i) = Some (Max (set (take future_window (drop i prices)))) \<and>
         future_price_min (out ! i) = Some (Min (set (take future_window (drop i prices)))) \<and>
         max_future_move (out ! i) =
           Some (max (Max (set (take future_window (drop i prices))) - prices ! i)
                     (prices ! i - Min (set (take future_window (drop i prices)))))"
proof -
  have len: "length prices = length df"
    using assms(2) by (metis length_map)
  have i: "i < length df" using assms(3,4) by simp
  have p: "price (base (df ! i)) = Some (prices ! i)"
    using assms(2) i len by (metis nth_map)
  let ?w = "take future_window (drop i prices)"
  have w: "window_values (map (\<lambda>r. price (base r)) df) i (forward_end future_window (length df) i)
           = map Some ?w"
    using window_forward [OF assms(3), of "map (\<lambda>r. price (base r)) df" i]
    by (simp add: assms(2) len take_map drop_map)
  have lw: "length ?w = future_window" using assms(4) len by simp
  have mx: "future_price_max (out ! i) = Some (Max (set ?w))"
    using i w roll_max_full [OF lw assms(3)] unfolding assms(1)
    by (simp add: define_labels_nth(2))
  have mn: "future_price_min (out ! i) = Some (Min (set ?w))"
    using i w roll_min_real_full [OF lw assms(3)] unfolding assms(1)
    by (simp add: define_labels_nth(3))
  have "max_future_move (out ! i) = Some (max (Max (set ?w) - prices ! i) (prices ! i - Min (set ?w)))"
    using i mx mn p unfolding assms(1)
    by (simp add: define_labels_nth(4,5,6) sub_opt_def max_skipna_def)
  with mx mn show ?thesis by simp
qed

theorem C2_forward_window_from_current_row_witness:
  "map (\<lambda>r. price (base r)) spike_rows = map Some [10, 1, 1, 1, 1, 1, 1, 1, 1, 1, 1] \<and>
   (0::nat) < 10 \<and> 0 + 10 \<le> length spike_rows \<and>
   future_price_max (define_labels 4000 (7 / 2) 10 spike_rows ! 0) = Some 10 \<and>
   future_price_min (define_labels 4000 (7 / 2) 10 spike_rows ! 0) = Some 1 \<and>
   max_future_move (define_labels 4000 (7 / 2) 10 spike_rows ! 0) = Some 9"
proof -
  have h1: "map (\<lambda>r. price (base r)) spike_rows = map Some [10, 1, 1, 1, 1, 1, 1, 1, 1, 1, 1]"
    by (simp add: spike_rows_def mk_frow_def mk_tick_def)
  have h2: "(0::nat) < 10" by simp
  have h3: "0 + 10 \<le> length spike_rows" by (simp add: spike_rows_def)
  from C2_forward_window_from_current_row
    [where tps_threshold = 4000 and price_move_threshold = "7 / 2", OF refl h1 h2 h3] h1 h3
  show ?thesis by simp
qed

text \<open>
  C2 as stated fails: with price 10 in row 0 and price 1 in the ten rows after it,
  \<open>future_price_max\<close> of row 0 is 10, the row's own price, while the maximum over the
  rows after it is 1.
\<close>

theorem C2_forward_window_counterexample:
  "future_price_max (define_labels 4000 (7 / 2) 10 spike_rows ! 0) = Some 10 \<and>
   claimed_future_price_max 10 spike_rows 0 = Some 1"
  by code_simp

text \<open>
  C3, as the code has it. A row whose forward window is incomplete (the final
  \<open>future_window - 1\<close> rows) is kept by \<open>define_labels\<close>; its future extremes and its
  \<open>max_future_move\<close> are undefined, and it is given \<open>is_initiation = 0\<close>.
\<close>

theorem C3_trailing_rows_labelled_zero:
  assumes "out = define_labels tps_threshold price_move_threshold future_window df"
    and "i < length df" and "length df < i + future_window"
  shows "length out = length df \<and> feat (out ! i) = df ! i \<and>
         future_price_max (out ! i) = None \<and> future_price_min (out ! i) = None \<and>
         max_future_move (out ! i) = None \<and> is_initiation (out ! i) = 0"
proof -
  let ?prices = "map (\<lambda>r. price (base r)) df"
  have fw: "0 < future_window" using assms(2,3) by simp
  have "length (take future_window (drop i ?prices)) < future_window"
    using assms(2,3) by simp
  then have "roll_max future_window (take future_window (drop i ?prices)) = None"
    and "roll_min_real future_window (take future_window (drop i ?prices)) = None"
    by (rule roll_max_short, rule roll_min_real_short)
  then have mx: "future_price_max (out ! i) = None" and mn: "future_price_min (out ! i) = None"
    using assms(1,2) window_forward [OF fw, of ?prices i]
    by (simp_all add: define_labels_nth)
  have mv: "max_future_move (out ! i) = None"
    using assms(1,2) mx mn
    by (simp add: define_labels_nth sub_opt_def max_skipna_def split: option.splits)
  have "is_initiation (out ! i) = 0"
    using assms(2) mv unfolding assms(1)
    by (simp add: define_labels_nth(7) ge_nan_def)
  with mx mn mv assms(1,2) show ?thesis by (simp add: define_labels_nth(1))
qed

theorem C3_trailing_rows_labelled_zero_witness:
  "10 < length label_rows \<and> length label_rows < 10 + 10 \<and>
   length (define_labels 4000 (7 / 2) 10 label_rows) = length label_rows \<and>
   feat (define_labels 4000 (7 / 2) 10 label_rows ! 10) = label_rows ! 10 \<and>
   max_future_move (define_labels 4000 (7 / 2) 10 label_rows ! 10) = None \<and>
   is_initiation (define_labels 4000 (7 / 2) 10 label_rows ! 10) = 0"
proof -
  have h1: "10 < length label_rows" and h2: "length label_rows < 10 + 10"
    by (simp_all add: label_rows_def)
  from C3_trailing_rows_labelled_zero
    [where tps_threshold = 4000 and price_move_threshold = "7 / 2", OF refl h1 h2] h1 h2
  show ?thesis by simp
qed

text \<open>
  C3 as stated fails: a table of one row, with \<open>factor_tps\<close> above the threshold,
  comes back with that row in it, labelled \<open>is_initiation = 0\<close>.
\<close>

theorem C3_trailing_rows_counterexample:
  "length (define_labels 4000 (7 / 2) 10 [mk_frow (Some 10) (Some 5000)]) = 1 \<and>
   factor_tps (base (feat (define_labels 4000 (7 / 2) 10 [mk_frow (Some 10) (Some 5000)] ! 0))) = Some 5000 \<and>
   max_future_move (define_labels 4000 (7 / 2) 10 [mk_frow (Some 10) (Some 5000)] ! 0) = None \<and>
   is_initiation (define_labels 4000 (7 / 2) 10 [mk_frow (Some 10) (Some 5000)] ! 0) = 0"
  by code_simp

text \<open>
  C4. A row is labelled \<open>is_initiation = 1\<close> if and only if its \<open>factor_tps\<close> is
  greater than \<open>tps_threshold\<close> and its \<open>max_future_move\<close> is at least
  \<open>price_move_threshold\<close>, and 0 otherwise. A row with \<open>factor_tps\<close> equal to
  \<open>tps_threshold\<close> is not labelled; a row with \<open>max_future_move\<close> equal to
  \<open>price_move_threshold\<close> and \<open>factor_tps\<close> above the threshold is labelled.
\<close>

theorem C4_is_initiation_thresholds:
  assumes "out = define_labels tps_threshold price_move_threshold future_window df"
    and "i < length df"
  shows "(is_initiation (out ! i) = 1 \<longleftrightarrow>
            (\<exists>f. factor_tps (base (df ! i)) = Some f \<and> tps_threshold < f) \<and>
            (\<exists>m. max_future_move (out ! i) = Some m \<and> price_move_threshold \<le> m)) \<and>
         (is_initiation (out ! i) \<noteq> 1 \<longrightarrow> is_initiation (out ! i) = 0) \<and>
         (factor_tps (base (df ! i)) = Some tps_threshold \<longrightarrow> is_initiation (out ! i) = 0) \<and>
         ((\<exists>f. factor_tps (base (df ! i)) = Some f \<and> tps_threshold < f) \<and>
          max_future_move (out ! i) = Some price_move_threshold \<longrightarrow> is_initiation (out ! i) = 1)"
  using assms(2) unfolding assms(1)
  by (auto simp: define_labels_nth(7) gt_nan_def ge_nan_def split: option.splits)

theorem C4_is_initiation_thresholds_witness:
  "(0::nat) < length label_rows \<and> 1 < length label_rows \<and>
   factor_tps (base (label_rows ! 0)) = Some 4001 \<and>
   max_future_move (define_labels 4000 (7 / 2) 10 label_rows ! 0) = Some (7 / 2) \<and>
   is_initiation (define_labels 4000 (7 / 2) 10 label_rows ! 0) = 1 \<and>
   factor_tps (base (label_rows ! 1)) = Some 4000 \<and>
   max_future_move (define_labels 4000 (7 / 2) 10 label_rows ! 1) = Some (7 / 2) \<and>
   is_initiation (define_labels 4000 (7 / 2) 10 label_rows ! 1) = 0"
proof -
  let ?out = "define_labels 4000 (7 / 2) 10 label_rows"
  have h0: "0 < length label_rows" and h1: "1 < length label_rows"
    by (simp_all add: label_rows_def)
  have f0: "factor_tps (base (label_rows ! 0)) = Some 4001"
    and f1: "factor_tps (base (label_rows ! 1)) = Some 4000"
    by (simp_all add: label_rows_def mk_frow_def mk_tick_def)
  have m0: "max_future_move (?out ! 0) = Some (7 / 2)"
    and m1: "max_future_move (?out ! 1) = Some (7 / 2)"
    by code_simp+
  from C4_is_initiation_thresholds
    [where tps_threshold = 4000 and price_move_threshold = "7 / 2" and future_window = 10, OF refl h0] f0 m0
  have l0: "is_initiation (?out ! 0) = 1" by simp
  from C4_is_initiation_thresholds
    [where tps_threshold = 4000 and price_move_threshold = "7 / 2" and future_window = 10, OF refl h1] f1
  have l1: "is_initiation (?out ! 1) = 0" by simp
  from h0 h1 f0 f1 m0 m1 l0 l1 show ?thesis by simp
qed

section \<open>Properties of the feature frame\<close>

lemma fillna_eq: "fillna v x = Some (case x of None \<Rightarrow> v | Some y \<Rightarrow> y)"
  by (cases x) (simp_all add: fillna_def)

lemma fillna_not_None [simp]: "fillna v x \<noteq> None"
  by (simp add: fillna_eq)

lemma fillna_idem [simp]: "fillna v (fillna v x) = fillna v x"
  by (cases x) (simp_all add: fillna_def)

lemma length_shift [simp]: "length (shift k xs) = length xs"
  by (simp add: shift_def)

lemma shift_nth: "j < length xs \<Longrightarrow> shift k xs ! j = (if j < k then None else xs ! (j - k))"
  by (simp add: shift_def)

lemma length_diff [simp]: "length (diff k xs) = length xs"
  by (simp add: diff_def)

lemma diff_nth:
  "j < length xs \<Longrightarrow> diff k xs ! j = sub_opt (xs ! j) (if j < k then None else xs ! (j - k))"
  by (simp add: diff_def shift_nth)

lemma sub_opt_None_iff: "sub_opt a b = None \<longleftrightarrow> a = None \<or> b = None"
  by (simp add: sub_opt_def split: option.splits)

lemma length_rolling_fixed [simp]: "length (rolling_fixed n col agg) = length col"
  by (simp add: rolling_fixed_def)

lemma rolling_fixed_nth:
  "j < length col \<Longrightarrow>
   rolling_fixed n col agg ! j = agg (window_values col (Suc j - n) (Suc j))"
  by (simp add: rolling_fixed_def)

lemma length_window_values:
  "e \<le> length xs \<Longrightarrow> length (window_values xs s e) = e - s"
  by (simp add: window_values_def)

lemma roll_mean_None_iff:
  "0 < n \<Longrightarrow> (\<forall>v \<in> set vs. v \<noteq> None) \<Longrightarrow> roll_mean n vs = None \<longleftrightarrow> length vs < n"
proof -
  assume n: "0 < n" and "\<forall>v \<in> set vs. v \<noteq> None"
  then have "length (observations vs) = length vs" by (intro observations_all_Some)
  with n show ?thesis by (auto simp: roll_mean_def Let_def)
qed

lemma length_features_frame [simp]: "length (features_frame df) = length df"
  by (simp add: features_frame_def Let_def)

lemma features_frame_nth:
  assumes "j < length df"
  shows "base (features_frame df ! j) = (df ! j)\<lparr>factor_tps := fillna 0 (factor_tps (df ! j))\<rparr>"
    and "factor_tps_lag_1 (features_frame df ! j) = shift 1 (map (\<lambda>r. fillna 0 (factor_tps r)) df) ! j"
    and "factor_tps_lag_2 (features_frame df ! j) = shift 2 (map (\<lambda>r. fillna 0 (factor_tps r)) df) ! j"
    and "factor_tps_lag_3 (features_frame df ! j) = shift 3 (map (\<lambda>r. fillna 0 (factor_tps r)) df) ! j"
    and "factor_tps_lag_4 (features_frame df ! j) = shift 4 (map (\<lambda>r. fillna 0 (factor_tps r)) df) ! j"
    and "factor_tps_lag_5 (features_frame df ! j) = shift 5 (map (\<lambda>r. fillna 0 (factor_tps r)) df) ! j"
    and "factor_tps_mean_5 (features_frame df ! j) =
           rolling_fixed 5 (map (\<lambda>r. fillna 0 (factor_tps r)) df) (roll_mean 5) ! j"
    and "factor_tps_std_5 (features_frame df ! j) =
           fillna 0 (rolling_fixed 5 (map (\<lambda>r. fillna 0 (factor_tps r)) df) (roll_std 5) ! j)"
    and "price_velocity_5 (features_frame df ! j) = diff 5 (map price df) ! j"
  using assms by (simp_all add: features_frame_def Let_def)

lemma lag_None_iff:
  assumes "j < length df"
  shows "shift k (map (\<lambda>r. fillna 0 (factor_tps r)) df) ! j = None \<longleftrightarrow> j < k"
  using assms by (simp add: shift_nth)

lemma mean_5_None_iff:
  assumes "j < length df"
  shows "rolling_fixed 5 (map (\<lambda>r. fillna 0 (factor_tps r)) df) (roll_mean 5) ! j = None \<longleftrightarrow> j < 4"
proof -
  let ?factor = "map (\<lambda>r. fillna 0 (factor_tps r)) df"
  let ?w = "window_values ?factor (Suc j - 5) (Suc j)"
  have "\<forall>v \<in> set ?w. v \<noteq> None"
    by (auto simp: window_values_def fillna_eq dest!: in_set_takeD in_set_dropD)
  then have "roll_mean 5 ?w = None \<longleftrightarrow> length ?w < 5"
    by (intro roll_mean_None_iff) simp_all
  moreover have "length ?w = Suc j - (Suc j - 5)"
    using assms by (simp add: length_window_values)
  ultimately show ?thesis
    using assms by (simp add: rolling_fixed_nth) arith
qed

lemma velocity_None_iff:
  assumes "j < length df"
  shows "diff 5 (map price df) ! j = None \<longleftrightarrow>
         j < 5 \<or> price (df ! j) = None \<or> price (df ! (j - 5)) = None"
  using assms by (auto simp: diff_nth sub_opt_None_iff)

lemma has_nan_features_frame:
  assumes "j < length df"
  shows "\<not> has_nan (features_frame df ! j) \<longleftrightarrow>
         5 \<le> j \<and> no_nulls_but_factor (df ! j) \<and> price (df ! (j - 5)) \<noteq> None"
  unfolding has_nan_def features_frame_nth [OF assms] lag_None_iff [OF assms]
    mean_5_None_iff [OF assms] velocity_None_iff [OF assms] no_nulls_but_factor_def
  by auto

lemma filter_eq_drop:
  assumes "\<And>j. j < length xs \<Longrightarrow> P (xs ! j) \<longleftrightarrow> k \<le> j"
  shows "filter P xs = drop k xs"
proof -
  have "filter P (take k xs) = []"
    using assms by (auto simp: filter_empty_conv in_set_conv_nth)
  moreover have "filter P (drop k xs) = drop k xs"
    using assms by (auto simp: filter_id_conv in_set_conv_nth)
  ultimately have "filter P (take k xs @ drop k xs) = drop k xs"
    by (simp only: filter_append append_Nil)
  then show ?thesis by simp
qed
lemma features_frame_zero_filled: "features_frame (map zero_filled df) = features_frame df"
  by (simp add: features_frame_def Let_def zero_filled_def comp_def)

text \<open>
  C9. A table of \<open>N \<ge> 5\<close> rows without a null cell comes back from
  \<open>engineer_features\<close> with \<open>N - 5\<close> rows: the first 5 rows are removed and the
  others are kept, in order.
\<close>

theorem C9_first_five_rows_dropped:
  assumes "5 \<le> length df" and "\<forall>r \<in> set df. no_nulls r"
  shows "length (engineer_features df) + 5 = length df \<and>
         engineer_features df = drop 5 (features_frame df) \<and>
         map base (engineer_features df) = drop 5 df"
proof -
  have nn: "no_nulls (df ! j)" if "j < length df" for j
    using assms(2) that by simp
  have keep: "\<not> has_nan (features_frame df ! j) \<longleftrightarrow> 5 \<le> j" if "j < length (features_frame df)" for j
  proof -
    from that have j: "j < length df" by simp
    have "no_nulls_but_factor (df ! j)"
      using nn [OF j] by (simp add: no_nulls_def no_nulls_but_factor_def)
    moreover have "price (df ! (j - 5)) \<noteq> None"
      using nn [of "j - 5"] j by (simp add: no_nulls_def)
    ultimately show ?thesis by (simp add: has_nan_features_frame [OF j])
  qed
  have eq: "engineer_features df = drop 5 (features_frame df)"
    unfolding engineer_features_def dropna_def by (rule filter_eq_drop) (rule keep)
  have "base (features_frame df ! j) = df ! j" if "j < length df" for j
  proof -
    from nn [OF that] obtain f where "factor_tps (df ! j) = Some f"
      by (auto simp: no_nulls_def)
    then show ?thesis by (simp add: features_frame_nth(1) [OF that] fillna_def)
  qed
  then have "map base (features_frame df) = df"
    by (intro nth_equalityI) simp_all
  then have "map base (engineer_features df) = drop 5 df"
    by (simp add: eq drop_map [symmetric])
  with eq assms(1) show ?thesis by simp
qed

theorem C9_first_five_rows_dropped_witness:
  "5 \<le> length six_ticks \<and> list_all no_nulls six_ticks \<and>
   length (engineer_features six_ticks) = 1 \<and>
   map base (engineer_features six_ticks) = [mk_tick 5 (Some 100) (Some 1)]"
proof -
  have h1: "5 \<le> length six_ticks" by (simp add: six_ticks_def)
  have h2: "\<forall>r \<in> set six_ticks. no_nulls r"
    by (simp add: six_ticks_def no_nulls_def mk_tick_def)
  have l: "length six_ticks = 6" by (simp add: six_ticks_def)
  have d: "drop 5 six_ticks = [mk_tick 5 (Some 100) (Some 1)]" by (simp add: six_ticks_def)
  from C9_first_five_rows_dropped [OF h1 h2]
  have a: "length (engineer_features six_ticks) + 5 = length six_ticks"
    and b: "map base (engineer_features six_ticks) = drop 5 six_ticks"
    by blast+
  from a l have "length (engineer_features six_ticks) = 1" by simp
  moreover from b d have "map base (engineer_features six_ticks) = [mk_tick 5 (Some 100) (Some 1)]"
    by (simp only:)
  ultimately show ?thesis using h1 h2 by (simp add: list_all_iff)
qed

text \<open>
  C10. A null \<open>factor_tps\<close> is set to 0 before the features are built: the feature
  frame, and so the result, is the one of the table with 0 in place of every null
  \<open>factor_tps\<close>. A row from position 5 on whose other cells are not null, and whose
  price 5 rows earlier is not null, is kept whether or not its \<open>factor_tps\<close> was
  null. A row whose price is null is removed by the NaN drop.
\<close>

theorem C10_null_factor_tps_counts_as_zero:
  assumes "j < length df" and "k < length df"
  shows "features_frame (map zero_filled df) = features_frame df \<and>
         engineer_features (map zero_filled df) = engineer_features df \<and>
         (factor_tps (df ! j) = None \<longrightarrow> factor_tps (base (features_frame df ! j)) = Some 0) \<and>
         (5 \<le> j \<and> no_nulls_but_factor (df ! j) \<and> price (df ! (j - 5)) \<noteq> None \<longrightarrow>
            features_frame df ! j \<in> set (engineer_features df)) \<and>
         (price (df ! k) = None \<longrightarrow> features_frame df ! k \<notin> set (engineer_features df))"
proof -
  have a: "features_frame (map zero_filled df) = features_frame df"
    by (rule features_frame_zero_filled)
  then have b: "engineer_features (map zero_filled df) = engineer_features df"
    by (simp add: engineer_features_def)
  have c: "factor_tps (base (features_frame df ! j)) = Some 0" if "factor_tps (df ! j) = None"
    using that by (simp add: features_frame_nth(1) [OF assms(1)] fillna_def)
  have d: "features_frame df ! j \<in> set (engineer_features df)"
    if "5 \<le> j \<and> no_nulls_but_factor (df ! j) \<and> price (df ! (j - 5)) \<noteq> None"
    using that assms(1) has_nan_features_frame [OF assms(1)]
    by (simp add: engineer_features_def dropna_def)
  have e: "features_frame df ! k \<notin> set (engineer_features df)" if "price (df ! k) = None"
    using that has_nan_features_frame [OF assms(2)]
    by (auto simp: engineer_features_def dropna_def no_nulls_but_factor_def)
  from a b c d e show ?thesis by blast
qed

theorem C10_null_factor_tps_counts_as_zero_witness:
  "6 < length seven_ticks \<and> 5 < length seven_ticks \<and>
   factor_tps (seven_ticks ! 6) = None \<and> no_nulls_but_factor (seven_ticks ! 6) \<and>
   price (seven_ticks ! (6 - 5)) = Some 101 \<and> price (seven_ticks ! 5) = None \<and>
   factor_tps (base (features_frame seven_ticks ! 6)) = Some 0 \<and>
   features_frame seven_ticks ! 6 \<in> set (engineer_features seven_ticks) \<and>
   features_frame seven_ticks ! 5 \<notin> set (engineer_features seven_ticks)"
proof -
  have h1: "6 < length seven_ticks" and h2: "5 < length seven_ticks"
    by (simp_all add: seven_ticks_def)
  have f: "factor_tps (seven_ticks ! 6) = None"
    and n: "no_nulls_but_factor (seven_ticks ! 6)"
    and p1: "price (seven_ticks ! (6 - 5)) = Some 101"
    and p5: "price (seven_ticks ! 5) = None"
    by (simp_all add: seven_ticks_def mk_tick_def no_nulls_but_factor_def)
  from C10_null_factor_tps_counts_as_zero [OF h1 h2] f n p1 p5
  have "factor_tps (base (features_frame seven_ticks ! 6)) = Some 0"
    and "features_frame seven_ticks ! 6 \<in> set (engineer_features seven_ticks)"
    and "features_frame seven_ticks ! 5 \<notin> set (engineer_features seven_ticks)"
    by simp_all
  with h1 h2 f n p1 p5 show ?thesis by simp
qed

end
